theory Spec2Isabelle
  imports Main "HOL-Library.Word"
begin

section \<open>Test fixtures of the router: helpers.go\<close>

text \<open>
  The file \<^verbatim>\<open>test_util/helpers.go\<close> builds router configurations for tests and
  short-lived self-signed certificates. Its own code is glue around the Go standard
  library (\<^verbatim>\<open>crypto/rand\<close>, \<^verbatim>\<open>crypto/rsa\<close>, \<^verbatim>\<open>crypto/ecdsa\<close>, \<^verbatim>\<open>crypto/x509\<close>,
  \<^verbatim>\<open>encoding/pem\<close>, \<^verbatim>\<open>encoding/asn1\<close>, \<^verbatim>\<open>crypto/tls\<close>, \<^verbatim>\<open>time\<close>). The library is not
  part of the repository: every library call is a field of the record \<open>lib\<close> below,
  left uninterpreted, and the functions of \<^verbatim>\<open>helpers.go\<close> are written over an
  arbitrary \<open>lib\<close>; the one exception is \<^verbatim>\<open>asn1.Marshal\<close>, a pure function of a
  constant, which is written out. What the library documents about a call is stated as a named
  predicate on \<open>lib\<close> and appears as a hypothesis where a theorem needs it.

  Effects. The entropy source and the clock are state: the type variable \<open>'w\<close> is
  the state of the outside world, a stateful call takes it and returns it updated.
  \<^verbatim>\<open>Expect(err).ToNot(HaveOccurred())\<close> aborts the running test when \<open>err\<close> is not
  nil; a function of the model then returns \<open>Inl err\<close>, and \<open>Inr (result, w)\<close> when it
  runs to its \<^verbatim>\<open>return\<close>.
\<close>

subsection \<open>Data\<close>

type_synonym bytes = string

datatype go_error = Error string

text \<open>
  \<^verbatim>\<open>time.Time\<close> as nanoseconds since the epoch, \<^verbatim>\<open>time.Duration\<close> as nanoseconds,
  both unbounded: the constants of the program and the readings of a clock are far
  from the ends of 64 bits.
\<close>

type_synonym Time = int
type_synonym Duration = int

definition Millisecond :: Duration where
  "Millisecond = 1000000"

definition Second :: Duration where
  "Second = 1000 * Millisecond"

definition Hour :: Duration where
  "Hour = 3600 * Second"

text \<open>
  \<^verbatim>\<open>pkix.Name\<close>: the two fields the program sets. A field that a struct literal does
  not name holds Go's zero value; for \<open>CommonName\<close> that is the empty string, which
  is how \<^verbatim>\<open>pkix.Name\<close> represents a name without a common name.
\<close>

record pkix_Name =
  Organization :: "string list"
  CommonName :: string

datatype SignatureAlgorithm = SHA256WithRSA | ECDSAWithSHA256

text \<open>
  An \<^verbatim>\<open>io.Reader\<close> handed to a library call as its source of randomness.
  \<^verbatim>\<open>rand.Reader\<close> is the reader of \<^verbatim>\<open>crypto/rand\<close>, which the package documents as
  a global, shared instance of a cryptographically secure random number generator;
  a reader over given bytes (\<^verbatim>\<open>bytes.NewReader\<close>) stands for the readers that are not.
\<close>

datatype io_Reader = rand_Reader | bytes_Reader string

fun cryptographically_secure :: "io_Reader \<Rightarrow> bool" where
  "cryptographically_secure rand_Reader = True"
| "cryptographically_secure (bytes_Reader b) = False"

text \<open>
  \<^verbatim>\<open>x509.Certificate\<close> as the program uses it, as a template: the fields named in the
  two struct literals (lines 111--118 and 146--153), and \<open>IsCA\<close>, the certificate
  authority flag of the basic constraints, which \<open>BasicConstraintsValid\<close> declares
  valid and which the literals do not name: it holds Go's zero value, \<^verbatim>\<open>false\<close>.
\<close>

record Certificate =
  SerialNumber :: int
  Subject :: pkix_Name
  SignatureAlgorithm :: SignatureAlgorithm
  NotBefore :: Time
  NotAfter :: Time
  BasicConstraintsValid :: bool
  IsCA :: bool

text \<open>
  Keys. In Go the private key structs embed their public key (\<^verbatim>\<open>privKey.PublicKey\<close>).
\<close>

record rsa_PublicKey =
  rsa_N :: int
  rsa_E :: int

record rsa_PrivateKey =
  rsa_PublicKey :: rsa_PublicKey
  rsa_D :: int

datatype Curve = P256

record ecdsa_PublicKey =
  ecdsa_Curve :: Curve
  ecdsa_X :: int
  ecdsa_Y :: int

record ecdsa_PrivateKey =
  ecdsa_PublicKey :: ecdsa_PublicKey
  ecdsa_D :: int

text \<open>The \<^verbatim>\<open>interface{}\<close> arguments of \<^verbatim>\<open>x509.CreateCertificate\<close>.\<close>

datatype PublicKey = RSAPublic rsa_PublicKey | ECDSAPublic ecdsa_PublicKey

datatype PrivateKey = RSAPrivate rsa_PrivateKey | ECDSAPrivate ecdsa_PrivateKey

fun Public :: "PrivateKey \<Rightarrow> PublicKey" where
  "Public (RSAPrivate k) = RSAPublic (rsa_PublicKey k)"
| "Public (ECDSAPrivate k) = ECDSAPublic (ecdsa_PublicKey k)"

record pem_Block =
  Type :: string
  Bytes :: bytes

record tls_Certificate =
  tls_Certificate :: "bytes list"
  tls_PrivateKey :: PrivateKey

subsection \<open>The standard library, uninterpreted\<close>

text \<open>
  One field for each library call of \<^verbatim>\<open>helpers.go\<close> but \<^verbatim>\<open>asn1.Marshal\<close>, which is
  modelled below. A call that reads randomness takes its reader and threads the
  world, as the clock does; a Go result \<^verbatim>\<open>(v, err)\<close> is a sum.
\<close>

record 'w lib =
  rand_Int :: "io_Reader \<Rightarrow> int \<Rightarrow> 'w \<Rightarrow> go_error + (int \<times> 'w)"
  time_Now :: "'w \<Rightarrow> Time \<times> 'w"
  rsa_GenerateKey :: "io_Reader \<Rightarrow> nat \<Rightarrow> 'w \<Rightarrow> go_error + (rsa_PrivateKey \<times> 'w)"
  ecdsa_GenerateKey :: "Curve \<Rightarrow> io_Reader \<Rightarrow> 'w \<Rightarrow> go_error + (ecdsa_PrivateKey \<times> 'w)"
  x509_CreateCertificate ::
    "io_Reader \<Rightarrow> Certificate \<Rightarrow> Certificate \<Rightarrow> PublicKey \<Rightarrow> PrivateKey \<Rightarrow> 'w \<Rightarrow>
      go_error + (bytes \<times> 'w)"
  pem_EncodeToMemory :: "pem_Block \<Rightarrow> bytes"
  x509_MarshalPKCS1PrivateKey :: "rsa_PrivateKey \<Rightarrow> bytes"
  x509_MarshalECPrivateKey :: "ecdsa_PrivateKey \<Rightarrow> go_error + bytes"
  tls_X509KeyPair :: "bytes \<Rightarrow> bytes \<Rightarrow> go_error + tls_Certificate"

subsection \<open>asn1.Marshal of an object identifier\<close>

text \<open>
  \<^verbatim>\<open>asn1.Marshal\<close> is a pure function, and the program calls it on one constant. For
  an \<^verbatim>\<open>asn1.ObjectIdentifier\<close> (a \<^verbatim>\<open>[]int\<close>) it is, in \<^verbatim>\<open>encoding/asn1\<close>:
  \<^verbatim>\<open>makeObjectIdentifier\<close> refuses an identifier with fewer than two arcs, with a
  first arc above 2, or with a second arc of 40 or more under a first arc below 2;
  the body is the base-128 encoding of \<open>40 * oid[0] + oid[1]\<close> and of each further
  arc; the result is the tag 6, the length and the body.
\<close>

function base128IntLength_loop :: "int \<Rightarrow> nat \<Rightarrow> nat" where
  "base128IntLength_loop i l =
    (if i > 0 then base128IntLength_loop (drop_bit 7 i) (Suc l) else l)"
  by pat_completeness auto
termination
  by (relation "measure (\<lambda>(i, l). nat i)") (auto simp add: drop_bit_eq_div)

definition base128IntLength :: "int \<Rightarrow> nat" where
  "base128IntLength n = (if n = 0 then 1 else base128IntLength_loop n 0)"

text \<open>
  \<^verbatim>\<open>appendBase128Int\<close>: seven bits to a byte, the most significant group first, the
  top bit set on every byte but the last.
\<close>

definition appendBase128Int :: "bytes \<Rightarrow> int \<Rightarrow> bytes" where
  "appendBase128Int dst n =
    (let l = base128IntLength n
     in dst @ map (\<lambda>i. let b = take_bit 7 (drop_bit (i * 7) n)
                       in char_of (if i \<noteq> 0 then b + 128 else b)) (rev [0..<l]))"

definition oidEncoder_Encode :: "int list \<Rightarrow> bytes" where
  "oidEncoder_Encode oid =
    foldl appendBase128Int (appendBase128Int [] (oid ! 0 * 40 + oid ! 1)) (drop 2 oid)"

definition makeObjectIdentifier :: "int list \<Rightarrow> go_error + bytes" where
  "makeObjectIdentifier oid =
    (if length oid < 2 \<or> oid ! 0 > 2 \<or> (oid ! 0 < 2 \<and> oid ! 1 \<ge> 40)
     then Inl (Error ''asn1: structure error: invalid object identifier'')
     else Inr (oidEncoder_Encode oid))"

function lengthLength_loop :: "nat \<Rightarrow> nat \<Rightarrow> nat" where
  "lengthLength_loop i numBytes =
    (if i > 255 then lengthLength_loop (drop_bit 8 i) (Suc numBytes) else numBytes)"
  by pat_completeness auto
termination
  by (relation "measure (\<lambda>(i, numBytes). i)") (auto simp add: drop_bit_eq_div)

definition lengthLength :: "nat \<Rightarrow> nat" where
  "lengthLength i = lengthLength_loop i 1"

definition appendLength :: "bytes \<Rightarrow> nat \<Rightarrow> bytes" where
  "appendLength dst i =
    dst @ map (\<lambda>n. char_of (drop_bit ((n - 1) * 8) i)) (rev [1..<Suc (lengthLength i)])"

definition appendTagAndLength :: "bytes \<Rightarrow> nat \<Rightarrow> nat \<Rightarrow> bytes" where
  "appendTagAndLength dst tag len =
    (let dst = dst @ [char_of tag]
     in if len \<ge> 128
        then appendLength (dst @ [char_of (128 + lengthLength len)]) len
        else dst @ [char_of len])"

definition asn1_Marshal :: "int list \<Rightarrow> go_error + bytes" where
  "asn1_Marshal oid =
    (case makeObjectIdentifier oid of
       Inl err \<Rightarrow> Inl err
     | Inr body \<Rightarrow> Inr (appendTagAndLength [] 6 (length body) @ body))"



subsection \<open>CreateKeyPair\<close>

text \<open>
  Lines 101--118 of \<^verbatim>\<open>CreateKeyPair\<close>: the serial number, the subject and the
  template. The limit is \<^verbatim>\<open>new(big.Int).Lsh(big.NewInt(1), 128)\<close>; the two validity
  bounds come from two calls of \<^verbatim>\<open>time.Now()\<close>, in the order of the literal. The
  comment on the second reads \<^verbatim>\<open>// valid for an hour\<close>.
\<close>

definition CreateKeyPair_tmpl :: "'w lib \<Rightarrow> string \<Rightarrow> 'w \<Rightarrow> go_error + (Certificate \<times> 'w)" where
  "CreateKeyPair_tmpl L cname w =
    (let serialNumberLimit = push_bit 128 (1::int) in
     case rand_Int L rand_Reader serialNumberLimit w of
       Inl err \<Rightarrow> Inl err
     | Inr (serialNumber, w1) \<Rightarrow>
        (let subject0 = \<lparr>Organization = [''xyz, Inc.''], CommonName = ''''\<rparr>;
             subject = (if cname \<noteq> '''' then subject0\<lparr>CommonName := cname\<rparr> else subject0);
             (now1, w2) = time_Now L w1;
             (now2, w3) = time_Now L w2
         in Inr (\<lparr>SerialNumber = serialNumber,
                  Subject = subject,
                  SignatureAlgorithm = SHA256WithRSA,
                  NotBefore = now1,
                  NotAfter = now2 + Hour,
                  BasicConstraintsValid = True,
                  IsCA = False\<rparr>, w3)))"

text \<open>
  Lines 120--132: the key, the signature (\<^verbatim>\<open>&tmpl\<close> is both template and parent), and
  the two PEM blocks.
\<close>

definition CreateKeyPair :: "'w lib \<Rightarrow> string \<Rightarrow> 'w \<Rightarrow> go_error + ((bytes \<times> bytes) \<times> 'w)" where
  "CreateKeyPair L cname w =
    (case CreateKeyPair_tmpl L cname w of
       Inl err \<Rightarrow> Inl err
     | Inr (tmpl, w3) \<Rightarrow>
        (case rsa_GenerateKey L rand_Reader 2048 w3 of
           Inl err \<Rightarrow> Inl err
         | Inr (privKey, w4) \<Rightarrow>
            (case x509_CreateCertificate L rand_Reader tmpl tmpl
                    (RSAPublic (rsa_PublicKey privKey)) (RSAPrivate privKey) w4 of
               Inl err \<Rightarrow> Inl err
             | Inr (certDER, w5) \<Rightarrow>
                (let b = \<lparr>Type = ''CERTIFICATE'', Bytes = certDER\<rparr>;
                     certPEM = pem_EncodeToMemory L b;
                     keyPEM = pem_EncodeToMemory L
                       \<lparr>Type = ''RSA PRIVATE KEY'',
                        Bytes = x509_MarshalPKCS1PrivateKey L privKey\<rparr>
                 in Inr ((keyPEM, certPEM), w5)))))"

subsection \<open>CreateECKeyPair\<close>

text \<open>Lines 136--153: as in \<^verbatim>\<open>CreateKeyPair\<close>, with the ECDSA signature algorithm.\<close>

definition CreateECKeyPair_tmpl :: "'w lib \<Rightarrow> string \<Rightarrow> 'w \<Rightarrow> go_error + (Certificate \<times> 'w)" where
  "CreateECKeyPair_tmpl L cname w =
    (let serialNumberLimit = push_bit 128 (1::int) in
     case rand_Int L rand_Reader serialNumberLimit w of
       Inl err \<Rightarrow> Inl err
     | Inr (serialNumber, w1) \<Rightarrow>
        (let subject0 = \<lparr>Organization = [''xyz, Inc.''], CommonName = ''''\<rparr>;
             subject = (if cname \<noteq> '''' then subject0\<lparr>CommonName := cname\<rparr> else subject0);
             (now1, w2) = time_Now L w1;
             (now2, w3) = time_Now L w2
         in Inr (\<lparr>SerialNumber = serialNumber,
                  Subject = subject,
                  SignatureAlgorithm = ECDSAWithSHA256,
                  NotBefore = now1,
                  NotAfter = now2 + Hour,
                  BasicConstraintsValid = True,
                  IsCA = False\<rparr>, w3)))"

text \<open>
  Lines 155--175. The result of \<^verbatim>\<open>asn1.Marshal\<close> is bound to \<^verbatim>\<open>ecdsaOid, err\<close> and
  \<open>err\<close> is not looked at again: were the call to fail, \<^verbatim>\<open>ecdsaOid\<close> would be the nil
  slice the library returns beside its error, and the function would go on. The
  comment above the call says that the values of the identifier came from
  \<^verbatim>\<open>crypto/x509/x509.go\<close>.
  \<^verbatim>\<open>fmt.Sprintf("%s%s", paramPEM, keyPEM)\<close> is the concatenation of the two texts.
\<close>

definition ecdsaOid_arcs :: "int list" where
  "ecdsaOid_arcs = [1, 2, 840, 10045, 4, 3, 2]"

definition CreateECKeyPair :: "'w lib \<Rightarrow> string \<Rightarrow> 'w \<Rightarrow> go_error + ((bytes \<times> bytes) \<times> 'w)" where
  "CreateECKeyPair L cname w =
    (case CreateECKeyPair_tmpl L cname w of
       Inl err \<Rightarrow> Inl err
     | Inr (tmpl, w3) \<Rightarrow>
        (case ecdsa_GenerateKey L P256 rand_Reader w3 of
           Inl err \<Rightarrow> Inl err
         | Inr (privKey, w4) \<Rightarrow>
            (case x509_CreateCertificate L rand_Reader tmpl tmpl
                    (ECDSAPublic (ecdsa_PublicKey privKey)) (ECDSAPrivate privKey) w4 of
               Inl err \<Rightarrow> Inl err
             | Inr (certDER, w5) \<Rightarrow>
                (let b = \<lparr>Type = ''CERTIFICATE'', Bytes = certDER\<rparr>;
                     certPEM = pem_EncodeToMemory L b
                 in case x509_MarshalECPrivateKey L privKey of
                      Inl err \<Rightarrow> Inl err
                    | Inr privBytes \<Rightarrow>
                       (let keyPEM = pem_EncodeToMemory L
                              \<lparr>Type = ''EC PRIVATE KEY'', Bytes = privBytes\<rparr>;
                            ecdsaOid = (case asn1_Marshal ecdsaOid_arcs of
                                          Inl err \<Rightarrow> [] | Inr der \<Rightarrow> der);
                            paramPEM = pem_EncodeToMemory L
                              \<lparr>Type = ''EC PARAMETERS'', Bytes = ecdsaOid\<rparr>;
                            keyPEM' = paramPEM @ keyPEM
                        in Inr ((keyPEM', certPEM), w5))))))"

subsection \<open>CreateCert and CreateECCert\<close>



subsection \<open>Configurations\<close>

text \<open>
  The structs of package \<^verbatim>\<open>config\<close>, with the fields \<^verbatim>\<open>helpers.go\<close> assigns. Ports are
  \<^verbatim>\<open>uint16\<close>. \<^verbatim>\<open>config.DefaultConfig()\<close> is not in this file of the repository: the
  configuration it returns is the parameter \<open>dflt\<close> of \<open>generateConfig\<close>.
\<close>

record StatusConfig =
  Status_Port :: "16 word"
  Status_User :: string
  Status_Pass :: string

record NatsConfig =
  Nats_Host :: string
  Nats_Port :: "16 word"
  Nats_User :: string
  Nats_Pass :: string

record LoggingConfig =
  Level :: string
  MetronAddress :: string
  JobName :: string

record OAuthConfig =
  TokenEndpoint :: string
  OAuth_Port :: int
  SkipSSLValidation :: bool

record config_Tracing =
  EnableZipkin :: bool

record Config =
  Port :: "16 word"
  Index :: nat
  TraceKey :: string
  Ip :: string
  StartResponseDelayInterval :: Duration
  PublishStartMessageInterval :: Duration
  PruneStaleDropletsInterval :: Duration
  DropletStaleThreshold :: Duration
  PublishActiveAppsInterval :: Duration
  Zone :: string
  EndpointTimeout :: Duration
  Status :: StatusConfig
  Nats :: "NatsConfig list"
  Logging :: LoggingConfig
  OAuth :: OAuthConfig
  RouteServiceSecret :: string
  Tracing :: config_Tracing
  EnableSSL :: bool
  TLSPEM :: "string list"
  SSLPort :: "16 word"
  CipherString :: string

text \<open>The loop of \<^verbatim>\<open>generateConfig\<close> appends one entry for each NATS port, in order.\<close>

definition generateConfig :: "Config \<Rightarrow> 16 word \<Rightarrow> 16 word \<Rightarrow> 16 word list \<Rightarrow> Config" where
  "generateConfig dflt statusPort proxyPort natsPorts =
    dflt\<lparr>Port := proxyPort,
         Index := 2,
         TraceKey := ''my_trace_key'',
         Ip := ''127.0.0.1'',
         StartResponseDelayInterval := 1 * Second,
         PublishStartMessageInterval := 10 * Second,
         PruneStaleDropletsInterval := 0,
         DropletStaleThreshold := 10 * Second,
         PublishActiveAppsInterval := 0,
         Zone := ''z1'',
         EndpointTimeout := 500 * Millisecond,
         Status := \<lparr>Status_Port = statusPort, Status_User = ''user'', Status_Pass = ''pass''\<rparr>,
         Nats := foldl (\<lambda>nats natsPort. nats @
                   [\<lparr>Nats_Host = ''localhost'', Nats_Port = natsPort,
                     Nats_User = ''nats'', Nats_Pass = ''nats''\<rparr>]) [] natsPorts,
         Logging := \<lparr>Level = ''debug'', MetronAddress = ''localhost:3457'',
                     JobName = ''router_test_z1_0''\<rparr>,
         OAuth := \<lparr>TokenEndpoint = ''uaa.cf.service.internal'', OAuth_Port = 8443,
                   SkipSSLValidation = True\<rparr>,
         RouteServiceSecret := ''kCvXxNMB0JO2vinxoru9Hg=='',
         Tracing := \<lparr>EnableZipkin = True\<rparr>\<rparr>"

definition SpecConfig :: "Config \<Rightarrow> 16 word \<Rightarrow> 16 word \<Rightarrow> 16 word list \<Rightarrow> Config" where
  "SpecConfig dflt statusPort proxyPort natsPorts =
    generateConfig dflt statusPort proxyPort natsPorts"

text \<open>
  \<^verbatim>\<open>SpecSSLConfig\<close>: the two key pairs are generated one after the other, the second
  from the world the first left. \<^verbatim>\<open>fmt.Sprintf("%s\n%s", key, cert)\<close> is the key
  text, one line feed, the certificate text.
\<close>

definition SpecSSLConfig ::
  "'w lib \<Rightarrow> Config \<Rightarrow> 16 word \<Rightarrow> 16 word \<Rightarrow> 16 word \<Rightarrow> 16 word list \<Rightarrow> 'w \<Rightarrow> go_error + (Config \<times> 'w)" where
  "SpecSSLConfig L dflt statusPort proxyPort SSLPort' natsPorts w =
    (let c = generateConfig dflt statusPort proxyPort natsPorts;
         c = c\<lparr>EnableSSL := True\<rparr>
     in case CreateKeyPair L ''potato.com'' w of
          Inl err \<Rightarrow> Inl err
        | Inr ((key, cert), w1) \<Rightarrow>
           (case CreateKeyPair L ''potato2.com'' w1 of
              Inl err \<Rightarrow> Inl err
            | Inr ((secondKey, secondCert), w2) \<Rightarrow>
               (let c = c\<lparr>TLSPEM := [key @ [CHR 0x0A] @ cert,
                                     secondKey @ [CHR 0x0A] @ secondCert]\<rparr>;
                    c = c\<lparr>SSLPort := SSLPort'\<rparr>;
                    c = c\<lparr>CipherString :=
                      ''TLS_ECDHE_RSA_WITH_AES_128_GCM_SHA256:TLS_ECDHE_RSA_WITH_AES_256_GCM_SHA384''\<rparr>
                in Inr (c, w2))))"

subsection \<open>What the library documents\<close>

text \<open>
  \<^verbatim>\<open>rand.Int(rand, max)\<close> returns a uniform random value in \<open>[0, max)\<close> (and panics
  if \<open>max \<le> 0\<close>).
\<close>

definition rand_Int_in_range :: "'w lib \<Rightarrow> bool" where
  "rand_Int_in_range L \<longleftrightarrow>
    (\<forall>rand max w n w'.
       0 < max \<longrightarrow> rand_Int L rand max w = Inr (n, w') \<longrightarrow> 0 \<le> n \<and> n < max)"







subsection \<open>An executable library\<close>

text \<open>
  A small instance of \<open>lib\<close> to run the functions on. Its world holds the readings
  the clock will show, one for each call of \<^verbatim>\<open>time.Now()\<close>, and a counter that
  every call reading \<^verbatim>\<open>rand.Reader\<close> advances; keys are made from the counter. Its
  PEM encoding writes the length of each field in unary before the field, so that
  \<open>sim_Decode\<close> reads a block back.
\<close>

record sim_world =
  sim_clock :: "Time list"
  sim_counter :: nat

definition sim_tick :: "sim_world \<Rightarrow> sim_world" where
  "sim_tick w = w\<lparr>sim_counter := Suc (sim_counter w)\<rparr>"

definition sim_Now :: "sim_world \<Rightarrow> Time \<times> sim_world" where
  "sim_Now w = (case sim_clock w of [] \<Rightarrow> (0, w) | t # ts \<Rightarrow> (t, w\<lparr>sim_clock := ts\<rparr>))"

definition sim_Encode :: "pem_Block \<Rightarrow> bytes" where
  "sim_Encode b =
    replicate (length (Type b)) CHR ''#'' @ ''|'' @ Type b @
    replicate (length (Bytes b)) CHR ''#'' @ ''|'' @ Bytes b"


definition simL :: "sim_world lib" where
  "simL =
    \<lparr>rand_Int = (\<lambda>rand max w.
       case rand of
         rand_Reader \<Rightarrow> Inr ((int (sim_counter w) + 41) mod max, sim_tick w)
       | bytes_Reader b \<Rightarrow> Inr (int (length b) mod max, w)),
     time_Now = sim_Now,
     rsa_GenerateKey = (\<lambda>rand bits w.
       Inr (\<lparr>rsa_PublicKey = \<lparr>rsa_N = int (sim_counter w) + 2, rsa_E = 65537\<rparr>,
             rsa_D = int (sim_counter w)\<rparr>, sim_tick w)),
     ecdsa_GenerateKey = (\<lambda>curve rand w.
       Inr (\<lparr>ecdsa_PublicKey =
               \<lparr>ecdsa_Curve = curve, ecdsa_X = int (sim_counter w),
                ecdsa_Y = int (sim_counter w) + 1\<rparr>,
             ecdsa_D = int (sim_counter w)\<rparr>, sim_tick w)),
     x509_CreateCertificate = (\<lambda>rand tmpl parent pub priv w.
       Inr (''cert:'' @ CommonName (Subject tmpl), sim_tick w)),
     pem_EncodeToMemory = sim_Encode,
     x509_MarshalPKCS1PrivateKey = (\<lambda>k. ''pkcs1:'' @ replicate (nat (rsa_D k)) CHR ''d''),
     x509_MarshalECPrivateKey = (\<lambda>k. Inr (''sec1:'' @ replicate (nat (ecdsa_D k)) CHR ''d'')),
     tls_X509KeyPair = (\<lambda>certPEMBlock keyPEMBlock.
       if certPEMBlock = [] \<or> keyPEMBlock = []
       then Inl (Error ''tls: failed to find any PEM data'')
       else Inr \<lparr>tls_Certificate = [certPEMBlock],
                 tls_PrivateKey = RSAPrivate
                   \<lparr>rsa_PublicKey = \<lparr>rsa_N = 2, rsa_E = 65537\<rparr>, rsa_D = 0\<rparr>\<rparr>)\<rparr>"

text \<open>
  A world whose clock shows, for the first two reads, instants two seconds apart
  (the process was suspended, or the wall clock was stepped), and then twice the
  same instant.
\<close>

definition sim_w0 :: sim_world where
  "sim_w0 =
    \<lparr>sim_clock = [1700000000000000000, 1700000002000000000,
                  1700000010000000000, 1700000010000000000],
     sim_counter = 0\<rparr>"

text \<open>
  A world whose clock shows two instants 200 nanoseconds apart, the first just
  before a full second and the second just after it.
\<close>

definition sim_w1 :: sim_world where
  "sim_w1 =
    \<lparr>sim_clock = [1700000000999999900, 1700000001000000100], sim_counter = 0\<rparr>"

text \<open>A default configuration to start from: every field at its zero value.\<close>

definition sim_DefaultConfig :: Config where
  "sim_DefaultConfig =
    \<lparr>Port = 0, Index = 0, TraceKey = [], Ip = [],
     StartResponseDelayInterval = 0, PublishStartMessageInterval = 0,
     PruneStaleDropletsInterval = 0, DropletStaleThreshold = 0,
     PublishActiveAppsInterval = 0, Zone = [], EndpointTimeout = 0,
     Status = \<lparr>Status_Port = 0, Status_User = [], Status_Pass = []\<rparr>,
     Nats = [],
     Logging = \<lparr>Level = [], MetronAddress = [], JobName = []\<rparr>,
     OAuth = \<lparr>TokenEndpoint = [], OAuth_Port = 0, SkipSSLValidation = False\<rparr>,
     RouteServiceSecret = [],
     Tracing = \<lparr>EnableZipkin = False\<rparr>,
     EnableSSL = False, TLSPEM = [], SSLPort = 0, CipherString = []\<rparr>"

section \<open>Properties\<close>

subsection \<open>What a successful run has done\<close>

text \<open>
  A function of the model returns \<open>Inr\<close> exactly when every checked call on its way
  succeeded; these lemmas name the values of such a run.
\<close>

lemma CreateKeyPair_tmpl_Inr:
  "CreateKeyPair_tmpl L cname w = Inr (tmpl, w3) \<longleftrightarrow>
    (\<exists>serialNumber w1 now1 w2 now2.
       rand_Int L rand_Reader (2 ^ 128) w = Inr (serialNumber, w1) \<and>
       time_Now L w1 = (now1, w2) \<and>
       time_Now L w2 = (now2, w3) \<and>
       tmpl = \<lparr>SerialNumber = serialNumber,
               Subject = \<lparr>Organization = [''xyz, Inc.''], CommonName = cname\<rparr>,
               SignatureAlgorithm = SHA256WithRSA,
               NotBefore = now1,
               NotAfter = now2 + Hour,
               BasicConstraintsValid = True,
               IsCA = False\<rparr>)"
  unfolding CreateKeyPair_tmpl_def Let_def push_bit_eq_mult
  by (auto split: sum.splits prod.splits)

lemma CreateECKeyPair_tmpl_Inr:
  "CreateECKeyPair_tmpl L cname w = Inr (tmpl, w3) \<longleftrightarrow>
    (\<exists>serialNumber w1 now1 w2 now2.
       rand_Int L rand_Reader (2 ^ 128) w = Inr (serialNumber, w1) \<and>
       time_Now L w1 = (now1, w2) \<and>
       time_Now L w2 = (now2, w3) \<and>
       tmpl = \<lparr>SerialNumber = serialNumber,
               Subject = \<lparr>Organization = [''xyz, Inc.''], CommonName = cname\<rparr>,
               SignatureAlgorithm = ECDSAWithSHA256,
               NotBefore = now1,
               NotAfter = now2 + Hour,
               BasicConstraintsValid = True,
               IsCA = False\<rparr>)"
  unfolding CreateECKeyPair_tmpl_def Let_def push_bit_eq_mult
  by (auto split: sum.splits prod.splits)

lemma CreateKeyPair_Inr:
  "CreateKeyPair L cname w = Inr ((keyPEM, certPEM), w') \<longleftrightarrow>
    (\<exists>tmpl w3 privKey w4 certDER.
       CreateKeyPair_tmpl L cname w = Inr (tmpl, w3) \<and>
       rsa_GenerateKey L rand_Reader 2048 w3 = Inr (privKey, w4) \<and>
       x509_CreateCertificate L rand_Reader tmpl tmpl
         (RSAPublic (rsa_PublicKey privKey)) (RSAPrivate privKey) w4 = Inr (certDER, w') \<and>
       certPEM = pem_EncodeToMemory L \<lparr>Type = ''CERTIFICATE'', Bytes = certDER\<rparr> \<and>
       keyPEM = pem_EncodeToMemory L
         \<lparr>Type = ''RSA PRIVATE KEY'', Bytes = x509_MarshalPKCS1PrivateKey L privKey\<rparr>)"
  unfolding CreateKeyPair_def Let_def
  by (auto split: sum.splits prod.splits)

text \<open>The encoding of the identifier of the code, and of the identifier of the curve.\<close>

lemma asn1_Marshal_ecdsaOid:
  "asn1_Marshal [1, 2, 840, 10045, 4, 3, 2] =
    Inr [CHR 0x06, CHR 0x08, CHR 0x2A, CHR 0x86, CHR 0x48, CHR 0xCE, CHR 0x3D,
         CHR 0x04, CHR 0x03, CHR 0x02]"
  by code_simp


lemma CreateECKeyPair_Inr:
  "CreateECKeyPair L cname w = Inr ((keyPEM, certPEM), w') \<longleftrightarrow>
    (\<exists>tmpl w3 privKey w4 certDER privBytes.
       CreateECKeyPair_tmpl L cname w = Inr (tmpl, w3) \<and>
       ecdsa_GenerateKey L P256 rand_Reader w3 = Inr (privKey, w4) \<and>
       x509_CreateCertificate L rand_Reader tmpl tmpl
         (ECDSAPublic (ecdsa_PublicKey privKey)) (ECDSAPrivate privKey) w4 = Inr (certDER, w') \<and>
       x509_MarshalECPrivateKey L privKey = Inr privBytes \<and>
       certPEM = pem_EncodeToMemory L \<lparr>Type = ''CERTIFICATE'', Bytes = certDER\<rparr> \<and>
       keyPEM =
         pem_EncodeToMemory L
           \<lparr>Type = ''EC PARAMETERS'',
            Bytes = [CHR 0x06, CHR 0x08, CHR 0x2A, CHR 0x86, CHR 0x48, CHR 0xCE, CHR 0x3D,
                     CHR 0x04, CHR 0x03, CHR 0x02]\<rparr> @
         pem_EncodeToMemory L \<lparr>Type = ''EC PRIVATE KEY'', Bytes = privBytes\<rparr>)"
  unfolding CreateECKeyPair_def ecdsaOid_arcs_def asn1_Marshal_ecdsaOid Let_def
  by (auto split: sum.splits prod.splits)

lemma SpecSSLConfig_Inr:
  "SpecSSLConfig L dflt statusPort proxyPort sslPort natsPorts w = Inr (c, w') \<longleftrightarrow>
    (\<exists>key cert w1 secondKey secondCert.
       CreateKeyPair L ''potato.com'' w = Inr ((key, cert), w1) \<and>
       CreateKeyPair L ''potato2.com'' w1 = Inr ((secondKey, secondCert), w') \<and>
       c = (generateConfig dflt statusPort proxyPort natsPorts)
             \<lparr>EnableSSL := True,
              TLSPEM := [key @ [CHR 0x0A] @ cert, secondKey @ [CHR 0x0A] @ secondCert],
              SSLPort := sslPort,
              CipherString :=
                ''TLS_ECDHE_RSA_WITH_AES_128_GCM_SHA256:TLS_ECDHE_RSA_WITH_AES_256_GCM_SHA384''\<rparr>)"
  unfolding SpecSSLConfig_def Let_def
  by (auto split: sum.splits prod.splits)

subsection \<open>The executable library meets what the library documents\<close>





lemma rand_Int_in_range_simL: "rand_Int_in_range simL"
  by (auto simp add: rand_Int_in_range_def simL_def split: io_Reader.splits)


text \<open>
  Runs of the generators on the executable library, from the worlds \<open>sim_w0\<close> and
  \<open>sim_w1\<close>: the RSA generator for \<^verbatim>\<open>potato.com\<close>, the EC generator for the empty name.
\<close>

lemma sim_CreateKeyPair_tmpl:
  "CreateKeyPair_tmpl simL ''potato.com'' sim_w0 =
    Inr (\<lparr>SerialNumber = 41,
          Subject = \<lparr>Organization = [''xyz, Inc.''], CommonName = ''potato.com''\<rparr>,
          SignatureAlgorithm = SHA256WithRSA,
          NotBefore = 1700000000000000000,
          NotAfter = 1700003602000000000,
          BasicConstraintsValid = True,
          IsCA = False\<rparr>,
         \<lparr>sim_clock = [1700000010000000000, 1700000010000000000], sim_counter = 1\<rparr>)"
  by (simp add: CreateKeyPair_tmpl_def simL_def sim_w0_def sim_Now_def sim_tick_def
      Second_def Millisecond_def Hour_def)

lemma sim_CreateECKeyPair_tmpl:
  "CreateECKeyPair_tmpl simL [] sim_w0 =
    Inr (\<lparr>SerialNumber = 41,
          Subject = \<lparr>Organization = [''xyz, Inc.''], CommonName = []\<rparr>,
          SignatureAlgorithm = ECDSAWithSHA256,
          NotBefore = 1700000000000000000,
          NotAfter = 1700003602000000000,
          BasicConstraintsValid = True,
          IsCA = False\<rparr>,
         \<lparr>sim_clock = [1700000010000000000, 1700000010000000000], sim_counter = 1\<rparr>)"
  by (simp add: CreateECKeyPair_tmpl_def simL_def sim_w0_def sim_Now_def sim_tick_def
      Second_def Millisecond_def Hour_def)

lemma sim_CreateKeyPair:
  "CreateKeyPair simL ''potato.com'' sim_w0 =
    Inr ((''###############|RSA PRIVATE KEY#######|pkcs1:d'',
          ''###########|CERTIFICATE###############|cert:potato.com''),
         \<lparr>sim_clock = [1700000010000000000, 1700000010000000000], sim_counter = 3\<rparr>)"
  by (simp add: CreateKeyPair_def sim_CreateKeyPair_tmpl)
     (simp add: simL_def sim_Encode_def sim_tick_def)

lemma sim_CreateECKeyPair:
  "CreateECKeyPair simL [] sim_w0 =
    Inr ((''#############|EC PARAMETERS##########|'' @
          [CHR 0x06, CHR 0x08, CHR 0x2A, CHR 0x86, CHR 0x48, CHR 0xCE, CHR 0x3D,
           CHR 0x04, CHR 0x03, CHR 0x02] @
          ''##############|EC PRIVATE KEY######|sec1:d'',
          ''###########|CERTIFICATE#####|cert:''),
         \<lparr>sim_clock = [1700000010000000000, 1700000010000000000], sim_counter = 3\<rparr>)"
  by (simp add: CreateECKeyPair_def sim_CreateECKeyPair_tmpl ecdsaOid_arcs_def
      asn1_Marshal_ecdsaOid)
     (simp add: simL_def sim_Encode_def sim_tick_def Let_def ecdsaOid_arcs_def
      asn1_Marshal_ecdsaOid)

lemma sim_CreateKeyPair_second:
  "CreateKeyPair simL ''potato2.com''
     \<lparr>sim_clock = [1700000010000000000, 1700000010000000000], sim_counter = 3\<rparr> =
    Inr ((''###############|RSA PRIVATE KEY##########|pkcs1:dddd'',
          ''###########|CERTIFICATE################|cert:potato2.com''),
         \<lparr>sim_clock = [], sim_counter = 6\<rparr>)"
  by (simp add: CreateKeyPair_def CreateKeyPair_tmpl_def simL_def sim_Now_def sim_tick_def
      sim_Encode_def eval_nat_numeral)

lemma sim_w1_CreateKeyPair_tmpl:
  "CreateKeyPair_tmpl simL ''potato.com'' sim_w1 =
    Inr (\<lparr>SerialNumber = 41,
          Subject = \<lparr>Organization = [''xyz, Inc.''], CommonName = ''potato.com''\<rparr>,
          SignatureAlgorithm = SHA256WithRSA,
          NotBefore = 1700000000999999900,
          NotAfter = 1700003601000000100,
          BasicConstraintsValid = True,
          IsCA = False\<rparr>,
         \<lparr>sim_clock = [], sim_counter = 1\<rparr>)"
  by (simp add: CreateKeyPair_tmpl_def simL_def sim_w1_def sim_Now_def sim_tick_def
      Second_def Millisecond_def Hour_def)

lemma sim_w1_CreateECKeyPair_tmpl:
  "CreateECKeyPair_tmpl simL [] sim_w1 =
    Inr (\<lparr>SerialNumber = 41,
          Subject = \<lparr>Organization = [''xyz, Inc.''], CommonName = []\<rparr>,
          SignatureAlgorithm = ECDSAWithSHA256,
          NotBefore = 1700000000999999900,
          NotAfter = 1700003601000000100,
          BasicConstraintsValid = True,
          IsCA = False\<rparr>,
         \<lparr>sim_clock = [], sim_counter = 1\<rparr>)"
  by (simp add: CreateECKeyPair_tmpl_def simL_def sim_w1_def sim_Now_def sim_tick_def
      Second_def Millisecond_def Hour_def)

lemma sim_w1_CreateKeyPair:
  "CreateKeyPair simL ''potato.com'' sim_w1 =
    Inr ((''###############|RSA PRIVATE KEY#######|pkcs1:d'',
          ''###########|CERTIFICATE###############|cert:potato.com''),
         \<lparr>sim_clock = [], sim_counter = 3\<rparr>)"
  by (simp add: CreateKeyPair_def sim_w1_CreateKeyPair_tmpl)
     (simp add: simL_def sim_Encode_def sim_tick_def)

lemma sim_w1_CreateECKeyPair:
  "CreateECKeyPair simL [] sim_w1 =
    Inr ((''#############|EC PARAMETERS##########|'' @
          [CHR 0x06, CHR 0x08, CHR 0x2A, CHR 0x86, CHR 0x48, CHR 0xCE, CHR 0x3D,
           CHR 0x04, CHR 0x03, CHR 0x02] @
          ''##############|EC PRIVATE KEY######|sec1:d'',
          ''###########|CERTIFICATE#####|cert:''),
         \<lparr>sim_clock = [], sim_counter = 3\<rparr>)"
  by (simp add: CreateECKeyPair_def sim_w1_CreateECKeyPair_tmpl ecdsaOid_arcs_def
      asn1_Marshal_ecdsaOid)
     (simp add: simL_def sim_Encode_def sim_tick_def Let_def ecdsaOid_arcs_def
      asn1_Marshal_ecdsaOid)

subsection \<open>The subject\<close>



subsection \<open>Self-signed\<close>

text \<open>
  Claim C2. Either generator calls \<^verbatim>\<open>x509.CreateCertificate\<close> with its template as
  the parent too, so the issuer, which is the subject of the parent, is the subject
  of the certificate; the signing key is the key generated in this call, and the
  public key certified is the public key of that key.
\<close>

theorem certificate_self_signed:
  "(CreateKeyPair L cname w = Inr ((keyPEM, certPEM), w') \<longrightarrow>
     (\<exists>tmpl parent pub priv w3 privKey w4 certDER.
        rsa_GenerateKey L rand_Reader 2048 w3 = Inr (privKey, w4) \<and>
        x509_CreateCertificate L rand_Reader tmpl parent pub priv w4 = Inr (certDER, w') \<and>
        certPEM = pem_EncodeToMemory L \<lparr>Type = ''CERTIFICATE'', Bytes = certDER\<rparr> \<and>
        parent = tmpl \<and> Subject parent = Subject tmpl \<and>
        priv = RSAPrivate privKey \<and> pub = Public priv)) \<and>
   (CreateECKeyPair L cname w = Inr ((keyPEM, certPEM), w') \<longrightarrow>
     (\<exists>tmpl parent pub priv w3 privKey w4 certDER.
        ecdsa_GenerateKey L P256 rand_Reader w3 = Inr (privKey, w4) \<and>
        x509_CreateCertificate L rand_Reader tmpl parent pub priv w4 = Inr (certDER, w') \<and>
        certPEM = pem_EncodeToMemory L \<lparr>Type = ''CERTIFICATE'', Bytes = certDER\<rparr> \<and>
        parent = tmpl \<and> Subject parent = Subject tmpl \<and>
        priv = ECDSAPrivate privKey \<and> pub = Public priv))"
proof (intro conjI impI)
  assume "CreateKeyPair L cname w = Inr ((keyPEM, certPEM), w')"
  then obtain tmpl w3 privKey w4 certDER where
    "rsa_GenerateKey L rand_Reader 2048 w3 = Inr (privKey, w4)"
    "x509_CreateCertificate L rand_Reader tmpl tmpl
       (Public (RSAPrivate privKey)) (RSAPrivate privKey) w4 = Inr (certDER, w')"
    "certPEM = pem_EncodeToMemory L \<lparr>Type = ''CERTIFICATE'', Bytes = certDER\<rparr>"
    unfolding CreateKeyPair_Inr by auto
  then show "\<exists>tmpl parent pub priv w3 privKey w4 certDER.
        rsa_GenerateKey L rand_Reader 2048 w3 = Inr (privKey, w4) \<and>
        x509_CreateCertificate L rand_Reader tmpl parent pub priv w4 = Inr (certDER, w') \<and>
        certPEM = pem_EncodeToMemory L \<lparr>Type = ''CERTIFICATE'', Bytes = certDER\<rparr> \<and>
        parent = tmpl \<and> Subject parent = Subject tmpl \<and>
        priv = RSAPrivate privKey \<and> pub = Public priv"
    by blast
next
  assume "CreateECKeyPair L cname w = Inr ((keyPEM, certPEM), w')"
  then obtain tmpl w3 privKey w4 certDER where
    "ecdsa_GenerateKey L P256 rand_Reader w3 = Inr (privKey, w4)"
    "x509_CreateCertificate L rand_Reader tmpl tmpl
       (Public (ECDSAPrivate privKey)) (ECDSAPrivate privKey) w4 = Inr (certDER, w')"
    "certPEM = pem_EncodeToMemory L \<lparr>Type = ''CERTIFICATE'', Bytes = certDER\<rparr>"
    unfolding CreateECKeyPair_Inr by auto
  then show "\<exists>tmpl parent pub priv w3 privKey w4 certDER.
        ecdsa_GenerateKey L P256 rand_Reader w3 = Inr (privKey, w4) \<and>
        x509_CreateCertificate L rand_Reader tmpl parent pub priv w4 = Inr (certDER, w') \<and>
        certPEM = pem_EncodeToMemory L \<lparr>Type = ''CERTIFICATE'', Bytes = certDER\<rparr> \<and>
        parent = tmpl \<and> Subject parent = Subject tmpl \<and>
        priv = ECDSAPrivate privKey \<and> pub = Public priv"
    by blast
qed

theorem certificate_self_signed_witness:
  "CreateKeyPair simL ''potato.com'' sim_w0 =
     Inr ((''###############|RSA PRIVATE KEY#######|pkcs1:d'',
           ''###########|CERTIFICATE###############|cert:potato.com''),
          \<lparr>sim_clock = [1700000010000000000, 1700000010000000000], sim_counter = 3\<rparr>) \<and>
   (\<exists>tmpl parent pub priv w3 privKey w4 certDER.
      rsa_GenerateKey simL rand_Reader 2048 w3 = Inr (privKey, w4) \<and>
      x509_CreateCertificate simL rand_Reader tmpl parent pub priv w4 =
        Inr (certDER, \<lparr>sim_clock = [1700000010000000000, 1700000010000000000], sim_counter = 3\<rparr>) \<and>
      ''###########|CERTIFICATE###############|cert:potato.com'' =
        pem_EncodeToMemory simL \<lparr>Type = ''CERTIFICATE'', Bytes = certDER\<rparr> \<and>
      parent = tmpl \<and> Subject parent = Subject tmpl \<and>
      priv = RSAPrivate privKey \<and> pub = Public priv) \<and>
   CreateECKeyPair simL [] sim_w0 =
     Inr ((''#############|EC PARAMETERS##########|'' @
           [CHR 0x06, CHR 0x08, CHR 0x2A, CHR 0x86, CHR 0x48, CHR 0xCE, CHR 0x3D,
            CHR 0x04, CHR 0x03, CHR 0x02] @
           ''##############|EC PRIVATE KEY######|sec1:d'',
           ''###########|CERTIFICATE#####|cert:''),
          \<lparr>sim_clock = [1700000010000000000, 1700000010000000000], sim_counter = 3\<rparr>) \<and>
   (\<exists>tmpl parent pub priv w3 privKey w4 certDER.
      ecdsa_GenerateKey simL P256 rand_Reader w3 = Inr (privKey, w4) \<and>
      x509_CreateCertificate simL rand_Reader tmpl parent pub priv w4 =
        Inr (certDER, \<lparr>sim_clock = [1700000010000000000, 1700000010000000000], sim_counter = 3\<rparr>) \<and>
      ''###########|CERTIFICATE#####|cert:'' =
        pem_EncodeToMemory simL \<lparr>Type = ''CERTIFICATE'', Bytes = certDER\<rparr> \<and>
      parent = tmpl \<and> Subject parent = Subject tmpl \<and>
      priv = ECDSAPrivate privKey \<and> pub = Public priv)"
  using sim_CreateKeyPair
    certificate_self_signed [THEN conjunct1, rule_format, OF sim_CreateKeyPair]
    sim_CreateECKeyPair
    certificate_self_signed [THEN conjunct2, rule_format, OF sim_CreateECKeyPair]
  by (intro conjI)

subsection \<open>The validity window\<close>

text \<open>
  What the code does, for every library: the two bounds of the window come from two
  reads of the clock, one after the other. The window of the template that either
  generator signs starts at the first reading and ends one hour after the second, so
  its length is one hour plus what the clock showed to pass between the two reads.
\<close>

lemma validity_window_two_reads:
  "(CreateKeyPair L cname w = Inr ((keyPEM, certPEM), w') \<longrightarrow>
     (\<exists>tmpl serialNumber w1 now1 w2 now2 w3 pub priv w4 certDER.
        rand_Int L rand_Reader (2 ^ 128) w = Inr (serialNumber, w1) \<and>
        time_Now L w1 = (now1, w2) \<and> time_Now L w2 = (now2, w3) \<and>
        x509_CreateCertificate L rand_Reader tmpl tmpl pub priv w4 = Inr (certDER, w') \<and>
        certPEM = pem_EncodeToMemory L \<lparr>Type = ''CERTIFICATE'', Bytes = certDER\<rparr> \<and>
        NotBefore tmpl = now1 \<and> NotAfter tmpl = now2 + 3600 * Second \<and>
        NotAfter tmpl - NotBefore tmpl = 3600 * Second + (now2 - now1))) \<and>
   (CreateECKeyPair L cname w = Inr ((keyPEM, certPEM), w') \<longrightarrow>
     (\<exists>tmpl serialNumber w1 now1 w2 now2 w3 pub priv w4 certDER.
        rand_Int L rand_Reader (2 ^ 128) w = Inr (serialNumber, w1) \<and>
        time_Now L w1 = (now1, w2) \<and> time_Now L w2 = (now2, w3) \<and>
        x509_CreateCertificate L rand_Reader tmpl tmpl pub priv w4 = Inr (certDER, w') \<and>
        certPEM = pem_EncodeToMemory L \<lparr>Type = ''CERTIFICATE'', Bytes = certDER\<rparr> \<and>
        NotBefore tmpl = now1 \<and> NotAfter tmpl = now2 + 3600 * Second \<and>
        NotAfter tmpl - NotBefore tmpl = 3600 * Second + (now2 - now1)))"
proof (intro conjI impI)
  assume "CreateKeyPair L cname w = Inr ((keyPEM, certPEM), w')"
  then obtain tmpl w3 privKey w4 certDER where
    t: "CreateKeyPair_tmpl L cname w = Inr (tmpl, w3)" and
    c: "x509_CreateCertificate L rand_Reader tmpl tmpl
          (RSAPublic (rsa_PublicKey privKey)) (RSAPrivate privKey) w4 = Inr (certDER, w')" and
    p: "certPEM = pem_EncodeToMemory L \<lparr>Type = ''CERTIFICATE'', Bytes = certDER\<rparr>"
    unfolding CreateKeyPair_Inr by blast
  from t obtain serialNumber w1 now1 w2 now2 where
    r: "rand_Int L rand_Reader (2 ^ 128) w = Inr (serialNumber, w1)" and
    n1: "time_Now L w1 = (now1, w2)" and n2: "time_Now L w2 = (now2, w3)" and
    b: "NotBefore tmpl = now1" and a: "NotAfter tmpl = now2 + 3600 * Second"
    unfolding CreateKeyPair_tmpl_Inr Hour_def by auto
  from a b have d: "NotAfter tmpl - NotBefore tmpl = 3600 * Second + (now2 - now1)"
    by simp
  with r n1 n2 c p b a
  show "\<exists>tmpl serialNumber w1 now1 w2 now2 w3 pub priv w4 certDER.
        rand_Int L rand_Reader (2 ^ 128) w = Inr (serialNumber, w1) \<and>
        time_Now L w1 = (now1, w2) \<and> time_Now L w2 = (now2, w3) \<and>
        x509_CreateCertificate L rand_Reader tmpl tmpl pub priv w4 = Inr (certDER, w') \<and>
        certPEM = pem_EncodeToMemory L \<lparr>Type = ''CERTIFICATE'', Bytes = certDER\<rparr> \<and>
        NotBefore tmpl = now1 \<and> NotAfter tmpl = now2 + 3600 * Second \<and>
        NotAfter tmpl - NotBefore tmpl = 3600 * Second + (now2 - now1)"
    by blast
next
  assume "CreateECKeyPair L cname w = Inr ((keyPEM, certPEM), w')"
  then obtain tmpl w3 privKey w4 certDER where
    t: "CreateECKeyPair_tmpl L cname w = Inr (tmpl, w3)" and
    c: "x509_CreateCertificate L rand_Reader tmpl tmpl
          (ECDSAPublic (ecdsa_PublicKey privKey)) (ECDSAPrivate privKey) w4 = Inr (certDER, w')" and
    p: "certPEM = pem_EncodeToMemory L \<lparr>Type = ''CERTIFICATE'', Bytes = certDER\<rparr>"
    unfolding CreateECKeyPair_Inr by blast
  from t obtain serialNumber w1 now1 w2 now2 where
    r: "rand_Int L rand_Reader (2 ^ 128) w = Inr (serialNumber, w1)" and
    n1: "time_Now L w1 = (now1, w2)" and n2: "time_Now L w2 = (now2, w3)" and
    b: "NotBefore tmpl = now1" and a: "NotAfter tmpl = now2 + 3600 * Second"
    unfolding CreateECKeyPair_tmpl_Inr Hour_def by auto
  from a b have d: "NotAfter tmpl - NotBefore tmpl = 3600 * Second + (now2 - now1)"
    by simp
  with r n1 n2 c p b a
  show "\<exists>tmpl serialNumber w1 now1 w2 now2 w3 pub priv w4 certDER.
        rand_Int L rand_Reader (2 ^ 128) w = Inr (serialNumber, w1) \<and>
        time_Now L w1 = (now1, w2) \<and> time_Now L w2 = (now2, w3) \<and>
        x509_CreateCertificate L rand_Reader tmpl tmpl pub priv w4 = Inr (certDER, w') \<and>
        certPEM = pem_EncodeToMemory L \<lparr>Type = ''CERTIFICATE'', Bytes = certDER\<rparr> \<and>
        NotBefore tmpl = now1 \<and> NotAfter tmpl = now2 + 3600 * Second \<and>
        NotAfter tmpl - NotBefore tmpl = 3600 * Second + (now2 - now1)"
    by blast
qed

text \<open>
  Claim C4 asks for a window of exactly 3600 seconds, and the comment of the code
  says \<^verbatim>\<open>// valid for an hour\<close>. The code reads the clock twice. On the executable
  library, in the world \<open>sim_w1\<close> whose clock shows 1700000000.999999900 s and then,
  200 nanoseconds later, 1700000001.000000100 s, each generator returns a
  certificate, and the template it signed starts at the first instant and ends at
  1700003601.000000100 s: its window is 3600 seconds and 200 nanoseconds, and in
  whole seconds, which is what an X.509 certificate stores, it runs from 1700000000
  to 1700003601, which is 3601 seconds.
\<close>

theorem validity_window_not_an_hour:
  "CreateKeyPair simL ''potato.com'' sim_w1 =
     Inr ((''###############|RSA PRIVATE KEY#######|pkcs1:d'',
           ''###########|CERTIFICATE###############|cert:potato.com''),
          \<lparr>sim_clock = [], sim_counter = 3\<rparr>) \<and>
   CreateKeyPair_tmpl simL ''potato.com'' sim_w1 =
     Inr (\<lparr>SerialNumber = 41,
           Subject = \<lparr>Organization = [''xyz, Inc.''], CommonName = ''potato.com''\<rparr>,
           SignatureAlgorithm = SHA256WithRSA,
           NotBefore = 1700000000999999900,
           NotAfter = 1700003601000000100,
           BasicConstraintsValid = True,
           IsCA = False\<rparr>,
          \<lparr>sim_clock = [], sim_counter = 1\<rparr>) \<and>
   NotAfter (fst (projr (CreateKeyPair_tmpl simL ''potato.com'' sim_w1))) -
   NotBefore (fst (projr (CreateKeyPair_tmpl simL ''potato.com'' sim_w1))) =
     3600 * Second + 200 \<and>
   NotAfter (fst (projr (CreateKeyPair_tmpl simL ''potato.com'' sim_w1))) div Second -
   NotBefore (fst (projr (CreateKeyPair_tmpl simL ''potato.com'' sim_w1))) div Second =
     3601 \<and>
   CreateECKeyPair simL [] sim_w1 =
     Inr ((''#############|EC PARAMETERS##########|'' @
           [CHR 0x06, CHR 0x08, CHR 0x2A, CHR 0x86, CHR 0x48, CHR 0xCE, CHR 0x3D,
            CHR 0x04, CHR 0x03, CHR 0x02] @
           ''##############|EC PRIVATE KEY######|sec1:d'',
           ''###########|CERTIFICATE#####|cert:''),
          \<lparr>sim_clock = [], sim_counter = 3\<rparr>) \<and>
   CreateECKeyPair_tmpl simL [] sim_w1 =
     Inr (\<lparr>SerialNumber = 41,
           Subject = \<lparr>Organization = [''xyz, Inc.''], CommonName = []\<rparr>,
           SignatureAlgorithm = ECDSAWithSHA256,
           NotBefore = 1700000000999999900,
           NotAfter = 1700003601000000100,
           BasicConstraintsValid = True,
           IsCA = False\<rparr>,
          \<lparr>sim_clock = [], sim_counter = 1\<rparr>) \<and>
   NotAfter (fst (projr (CreateECKeyPair_tmpl simL [] sim_w1))) -
   NotBefore (fst (projr (CreateECKeyPair_tmpl simL [] sim_w1))) =
     3600 * Second + 200 \<and>
   NotAfter (fst (projr (CreateECKeyPair_tmpl simL [] sim_w1))) div Second -
   NotBefore (fst (projr (CreateECKeyPair_tmpl simL [] sim_w1))) div Second =
     3601"
proof -
  have "(1700003601000000100::int) - 1700000000999999900 = 3600 * Second + 200"
    and "(1700003601000000100::int) div Second - 1700000000999999900 div Second = 3601"
    by (simp_all add: Second_def Millisecond_def)
  then show ?thesis
    using sim_w1_CreateKeyPair sim_w1_CreateECKeyPair
    by (simp add: sim_w1_CreateKeyPair_tmpl sim_w1_CreateECKeyPair_tmpl)
qed

subsection \<open>The serial number\<close>

text \<open>
  Claim C7. The serial number of the template that either generator signs is what
  \<^verbatim>\<open>rand.Int\<close> returned when given \<^verbatim>\<open>rand.Reader\<close>, the cryptographically secure
  reader of \<^verbatim>\<open>crypto/rand\<close>, and the limit \<open>1 << 128\<close>; as \<^verbatim>\<open>rand.Int\<close> returns a
  value in \<open>[0, max)\<close>, the serial number is at least 0 and less than \<open>2 ^ 128\<close>.
\<close>

theorem serial_number_range:
  assumes "rand_Int_in_range L"
  shows
    "(CreateKeyPair L cname w = Inr ((keyPEM, certPEM), w') \<longrightarrow>
       (\<exists>rand tmpl w1 pub priv w4 certDER.
          rand = rand_Reader \<and> cryptographically_secure rand \<and>
          rand_Int L rand (2 ^ 128) w = Inr (SerialNumber tmpl, w1) \<and>
          x509_CreateCertificate L rand_Reader tmpl tmpl pub priv w4 = Inr (certDER, w') \<and>
          certPEM = pem_EncodeToMemory L \<lparr>Type = ''CERTIFICATE'', Bytes = certDER\<rparr> \<and>
          0 \<le> SerialNumber tmpl \<and> SerialNumber tmpl < 2 ^ 128)) \<and>
     (CreateECKeyPair L cname w = Inr ((keyPEM, certPEM), w') \<longrightarrow>
       (\<exists>rand tmpl w1 pub priv w4 certDER.
          rand = rand_Reader \<and> cryptographically_secure rand \<and>
          rand_Int L rand (2 ^ 128) w = Inr (SerialNumber tmpl, w1) \<and>
          x509_CreateCertificate L rand_Reader tmpl tmpl pub priv w4 = Inr (certDER, w') \<and>
          certPEM = pem_EncodeToMemory L \<lparr>Type = ''CERTIFICATE'', Bytes = certDER\<rparr> \<and>
          0 \<le> SerialNumber tmpl \<and> SerialNumber tmpl < 2 ^ 128))"
proof (intro conjI impI)
  have range: "0 \<le> n \<and> n < 2 ^ 128"
    if "rand_Int L rand_Reader (2 ^ 128) w = Inr (n, w1)" for n w1
    using assms that unfolding rand_Int_in_range_def
    by (metis zero_less_numeral zero_less_power)
  {
    assume "CreateKeyPair L cname w = Inr ((keyPEM, certPEM), w')"
    then obtain tmpl w3 privKey w4 certDER where
      t: "CreateKeyPair_tmpl L cname w = Inr (tmpl, w3)" and
      c: "x509_CreateCertificate L rand_Reader tmpl tmpl
            (RSAPublic (rsa_PublicKey privKey)) (RSAPrivate privKey) w4 = Inr (certDER, w')" and
      p: "certPEM = pem_EncodeToMemory L \<lparr>Type = ''CERTIFICATE'', Bytes = certDER\<rparr>"
      unfolding CreateKeyPair_Inr by blast
    from t obtain w1 where
      r: "rand_Int L rand_Reader (2 ^ 128) w = Inr (SerialNumber tmpl, w1)"
      unfolding CreateKeyPair_tmpl_Inr by auto
    from range [OF r] r c p
    show "\<exists>rand tmpl w1 pub priv w4 certDER.
          rand = rand_Reader \<and> cryptographically_secure rand \<and>
          rand_Int L rand (2 ^ 128) w = Inr (SerialNumber tmpl, w1) \<and>
          x509_CreateCertificate L rand_Reader tmpl tmpl pub priv w4 = Inr (certDER, w') \<and>
          certPEM = pem_EncodeToMemory L \<lparr>Type = ''CERTIFICATE'', Bytes = certDER\<rparr> \<and>
          0 \<le> SerialNumber tmpl \<and> SerialNumber tmpl < 2 ^ 128"
      by (intro exI [of _ rand_Reader] exI [of _ tmpl]) auto
  }
  {
    assume "CreateECKeyPair L cname w = Inr ((keyPEM, certPEM), w')"
    then obtain tmpl w3 privKey w4 certDER where
      t: "CreateECKeyPair_tmpl L cname w = Inr (tmpl, w3)" and
      c: "x509_CreateCertificate L rand_Reader tmpl tmpl
            (ECDSAPublic (ecdsa_PublicKey privKey)) (ECDSAPrivate privKey) w4 = Inr (certDER, w')" and
      p: "certPEM = pem_EncodeToMemory L \<lparr>Type = ''CERTIFICATE'', Bytes = certDER\<rparr>"
      unfolding CreateECKeyPair_Inr by blast
    from t obtain w1 where
      r: "rand_Int L rand_Reader (2 ^ 128) w = Inr (SerialNumber tmpl, w1)"
      unfolding CreateECKeyPair_tmpl_Inr by auto
    from range [OF r] r c p
    show "\<exists>rand tmpl w1 pub priv w4 certDER.
          rand = rand_Reader \<and> cryptographically_secure rand \<and>
          rand_Int L rand (2 ^ 128) w = Inr (SerialNumber tmpl, w1) \<and>
          x509_CreateCertificate L rand_Reader tmpl tmpl pub priv w4 = Inr (certDER, w') \<and>
          certPEM = pem_EncodeToMemory L \<lparr>Type = ''CERTIFICATE'', Bytes = certDER\<rparr> \<and>
          0 \<le> SerialNumber tmpl \<and> SerialNumber tmpl < 2 ^ 128"
      by (intro exI [of _ rand_Reader] exI [of _ tmpl]) auto
  }
qed

theorem serial_number_range_witness:
  "rand_Int_in_range simL \<and>
   CreateKeyPair simL ''potato.com'' sim_w0 =
     Inr ((''###############|RSA PRIVATE KEY#######|pkcs1:d'',
           ''###########|CERTIFICATE###############|cert:potato.com''),
          \<lparr>sim_clock = [1700000010000000000, 1700000010000000000], sim_counter = 3\<rparr>) \<and>
   (\<exists>rand tmpl w1 pub priv w4 certDER.
      rand = rand_Reader \<and> cryptographically_secure rand \<and>
      rand_Int simL rand (2 ^ 128) sim_w0 = Inr (SerialNumber tmpl, w1) \<and>
      x509_CreateCertificate simL rand_Reader tmpl tmpl pub priv w4 =
        Inr (certDER, \<lparr>sim_clock = [1700000010000000000, 1700000010000000000], sim_counter = 3\<rparr>) \<and>
      ''###########|CERTIFICATE###############|cert:potato.com'' =
        pem_EncodeToMemory simL \<lparr>Type = ''CERTIFICATE'', Bytes = certDER\<rparr> \<and>
      0 \<le> SerialNumber tmpl \<and> SerialNumber tmpl < 2 ^ 128) \<and>
   CreateECKeyPair simL [] sim_w0 =
     Inr ((''#############|EC PARAMETERS##########|'' @
           [CHR 0x06, CHR 0x08, CHR 0x2A, CHR 0x86, CHR 0x48, CHR 0xCE, CHR 0x3D,
            CHR 0x04, CHR 0x03, CHR 0x02] @
           ''##############|EC PRIVATE KEY######|sec1:d'',
           ''###########|CERTIFICATE#####|cert:''),
          \<lparr>sim_clock = [1700000010000000000, 1700000010000000000], sim_counter = 3\<rparr>) \<and>
   (\<exists>rand tmpl w1 pub priv w4 certDER.
      rand = rand_Reader \<and> cryptographically_secure rand \<and>
      rand_Int simL rand (2 ^ 128) sim_w0 = Inr (SerialNumber tmpl, w1) \<and>
      x509_CreateCertificate simL rand_Reader tmpl tmpl pub priv w4 =
        Inr (certDER, \<lparr>sim_clock = [1700000010000000000, 1700000010000000000], sim_counter = 3\<rparr>) \<and>
      ''###########|CERTIFICATE#####|cert:'' =
        pem_EncodeToMemory simL \<lparr>Type = ''CERTIFICATE'', Bytes = certDER\<rparr> \<and>
      0 \<le> SerialNumber tmpl \<and> SerialNumber tmpl < 2 ^ 128)"
  using rand_Int_in_range_simL
    sim_CreateKeyPair
    serial_number_range [OF rand_Int_in_range_simL, THEN conjunct1, rule_format,
      OF sim_CreateKeyPair]
    sim_CreateECKeyPair
    serial_number_range [OF rand_Int_in_range_simL, THEN conjunct2, rule_format,
      OF sim_CreateECKeyPair]
  by (intro conjI)

subsection \<open>Basic constraints\<close>

text \<open>
  Claim C8, as the code has it. The template that either generator signs declares
  its basic constraints valid (\<open>BasicConstraintsValid\<close> is true) and leaves the
  certificate authority flag \<open>IsCA\<close> at false: the certificate carries basic
  constraints that say it is not a certificate authority. The template is signed
  with its own key all the same.
\<close>

theorem basic_constraints:
  "(CreateKeyPair L cname w = Inr ((keyPEM, certPEM), w') \<longrightarrow>
     (\<exists>tmpl pub priv w4 certDER.
        x509_CreateCertificate L rand_Reader tmpl tmpl pub priv w4 = Inr (certDER, w') \<and>
        certPEM = pem_EncodeToMemory L \<lparr>Type = ''CERTIFICATE'', Bytes = certDER\<rparr> \<and>
        BasicConstraintsValid tmpl = True \<and> IsCA tmpl = False)) \<and>
   (CreateECKeyPair L cname w = Inr ((keyPEM, certPEM), w') \<longrightarrow>
     (\<exists>tmpl pub priv w4 certDER.
        x509_CreateCertificate L rand_Reader tmpl tmpl pub priv w4 = Inr (certDER, w') \<and>
        certPEM = pem_EncodeToMemory L \<lparr>Type = ''CERTIFICATE'', Bytes = certDER\<rparr> \<and>
        BasicConstraintsValid tmpl = True \<and> IsCA tmpl = False))"
proof (intro conjI impI)
  assume "CreateKeyPair L cname w = Inr ((keyPEM, certPEM), w')"
  then obtain tmpl w3 privKey w4 certDER where
    t: "CreateKeyPair_tmpl L cname w = Inr (tmpl, w3)" and
    c: "x509_CreateCertificate L rand_Reader tmpl tmpl
          (RSAPublic (rsa_PublicKey privKey)) (RSAPrivate privKey) w4 = Inr (certDER, w')" and
    p: "certPEM = pem_EncodeToMemory L \<lparr>Type = ''CERTIFICATE'', Bytes = certDER\<rparr>"
    unfolding CreateKeyPair_Inr by blast
  from t have "BasicConstraintsValid tmpl = True \<and> IsCA tmpl = False"
    unfolding CreateKeyPair_tmpl_Inr by auto
  with c p show "\<exists>tmpl pub priv w4 certDER.
        x509_CreateCertificate L rand_Reader tmpl tmpl pub priv w4 = Inr (certDER, w') \<and>
        certPEM = pem_EncodeToMemory L \<lparr>Type = ''CERTIFICATE'', Bytes = certDER\<rparr> \<and>
        BasicConstraintsValid tmpl = True \<and> IsCA tmpl = False"
    by blast
next
  assume "CreateECKeyPair L cname w = Inr ((keyPEM, certPEM), w')"
  then obtain tmpl w3 privKey w4 certDER where
    t: "CreateECKeyPair_tmpl L cname w = Inr (tmpl, w3)" and
    c: "x509_CreateCertificate L rand_Reader tmpl tmpl
          (ECDSAPublic (ecdsa_PublicKey privKey)) (ECDSAPrivate privKey) w4 = Inr (certDER, w')" and
    p: "certPEM = pem_EncodeToMemory L \<lparr>Type = ''CERTIFICATE'', Bytes = certDER\<rparr>"
    unfolding CreateECKeyPair_Inr by blast
  from t have "BasicConstraintsValid tmpl = True \<and> IsCA tmpl = False"
    unfolding CreateECKeyPair_tmpl_Inr by auto
  with c p show "\<exists>tmpl pub priv w4 certDER.
        x509_CreateCertificate L rand_Reader tmpl tmpl pub priv w4 = Inr (certDER, w') \<and>
        certPEM = pem_EncodeToMemory L \<lparr>Type = ''CERTIFICATE'', Bytes = certDER\<rparr> \<and>
        BasicConstraintsValid tmpl = True \<and> IsCA tmpl = False"
    by blast
qed

text \<open>
  The templates of a run of each generator on the executable library: in both the
  certificate authority flag is false.
\<close>

theorem certificate_authority_flag_counterexample:
  "CreateKeyPair_tmpl simL ''potato.com'' sim_w0 =
     Inr (\<lparr>SerialNumber = 41,
           Subject = \<lparr>Organization = [''xyz, Inc.''], CommonName = ''potato.com''\<rparr>,
           SignatureAlgorithm = SHA256WithRSA,
           NotBefore = 1700000000000000000,
           NotAfter = 1700003602000000000,
           BasicConstraintsValid = True,
           IsCA = False\<rparr>,
          \<lparr>sim_clock = [1700000010000000000, 1700000010000000000], sim_counter = 1\<rparr>) \<and>
   IsCA (fst (projr (CreateKeyPair_tmpl simL ''potato.com'' sim_w0))) = False \<and>
   CreateECKeyPair_tmpl simL [] sim_w0 =
     Inr (\<lparr>SerialNumber = 41,
           Subject = \<lparr>Organization = [''xyz, Inc.''], CommonName = []\<rparr>,
           SignatureAlgorithm = ECDSAWithSHA256,
           NotBefore = 1700000000000000000,
           NotAfter = 1700003602000000000,
           BasicConstraintsValid = True,
           IsCA = False\<rparr>,
          \<lparr>sim_clock = [1700000010000000000, 1700000010000000000], sim_counter = 1\<rparr>) \<and>
   IsCA (fst (projr (CreateECKeyPair_tmpl simL [] sim_w0))) = False"
  by (simp add: sim_CreateKeyPair_tmpl sim_CreateECKeyPair_tmpl)

theorem basic_constraints_witness:
  "CreateKeyPair simL ''potato.com'' sim_w0 =
     Inr ((''###############|RSA PRIVATE KEY#######|pkcs1:d'',
           ''###########|CERTIFICATE###############|cert:potato.com''),
          \<lparr>sim_clock = [1700000010000000000, 1700000010000000000], sim_counter = 3\<rparr>) \<and>
   (\<exists>tmpl pub priv w4 certDER.
      x509_CreateCertificate simL rand_Reader tmpl tmpl pub priv w4 =
        Inr (certDER, \<lparr>sim_clock = [1700000010000000000, 1700000010000000000], sim_counter = 3\<rparr>) \<and>
      ''###########|CERTIFICATE###############|cert:potato.com'' =
        pem_EncodeToMemory simL \<lparr>Type = ''CERTIFICATE'', Bytes = certDER\<rparr> \<and>
      BasicConstraintsValid tmpl = True \<and> IsCA tmpl = False) \<and>
   CreateECKeyPair simL [] sim_w0 =
     Inr ((''#############|EC PARAMETERS##########|'' @
           [CHR 0x06, CHR 0x08, CHR 0x2A, CHR 0x86, CHR 0x48, CHR 0xCE, CHR 0x3D,
            CHR 0x04, CHR 0x03, CHR 0x02] @
           ''##############|EC PRIVATE KEY######|sec1:d'',
           ''###########|CERTIFICATE#####|cert:''),
          \<lparr>sim_clock = [1700000010000000000, 1700000010000000000], sim_counter = 3\<rparr>) \<and>
   (\<exists>tmpl pub priv w4 certDER.
      x509_CreateCertificate simL rand_Reader tmpl tmpl pub priv w4 =
        Inr (certDER, \<lparr>sim_clock = [1700000010000000000, 1700000010000000000], sim_counter = 3\<rparr>) \<and>
      ''###########|CERTIFICATE#####|cert:'' =
        pem_EncodeToMemory simL \<lparr>Type = ''CERTIFICATE'', Bytes = certDER\<rparr> \<and>
      BasicConstraintsValid tmpl = True \<and> IsCA tmpl = False)"
  using sim_CreateKeyPair
    basic_constraints [THEN conjunct1, rule_format, OF sim_CreateKeyPair]
    sim_CreateECKeyPair
    basic_constraints [THEN conjunct2, rule_format, OF sim_CreateECKeyPair]
  by (intro conjI)

subsection \<open>PEM labels and key encodings\<close>

text \<open>
  Claim C9. The key text of the RSA generator is one PEM block of type
  \<^verbatim>\<open>RSA PRIVATE KEY\<close> whose bytes are \<^verbatim>\<open>x509.MarshalPKCS1PrivateKey\<close> of the generated
  key (the PKCS#1 encoding; no PKCS#8 call is made), and the certificate text of
  either generator is one PEM block of type \<^verbatim>\<open>CERTIFICATE\<close> holding the bytes that
  \<^verbatim>\<open>x509.CreateCertificate\<close> returned.
\<close>

theorem pem_labels:
  "(CreateKeyPair L cname w = Inr ((keyPEM, certPEM), w') \<longrightarrow>
     (\<exists>tmpl w3 privKey w4 certDER.
        rsa_GenerateKey L rand_Reader 2048 w3 = Inr (privKey, w4) \<and>
        x509_CreateCertificate L rand_Reader tmpl tmpl (Public (RSAPrivate privKey))
          (RSAPrivate privKey) w4 = Inr (certDER, w') \<and>
        keyPEM = pem_EncodeToMemory L
          \<lparr>Type = ''RSA PRIVATE KEY'', Bytes = x509_MarshalPKCS1PrivateKey L privKey\<rparr> \<and>
        certPEM = pem_EncodeToMemory L \<lparr>Type = ''CERTIFICATE'', Bytes = certDER\<rparr>)) \<and>
   (CreateECKeyPair L cname w = Inr ((keyPEM, certPEM), w') \<longrightarrow>
     (\<exists>tmpl w3 privKey w4 certDER.
        ecdsa_GenerateKey L P256 rand_Reader w3 = Inr (privKey, w4) \<and>
        x509_CreateCertificate L rand_Reader tmpl tmpl (Public (ECDSAPrivate privKey))
          (ECDSAPrivate privKey) w4 = Inr (certDER, w') \<and>
        certPEM = pem_EncodeToMemory L \<lparr>Type = ''CERTIFICATE'', Bytes = certDER\<rparr>))"
proof (intro conjI impI)
  assume "CreateKeyPair L cname w = Inr ((keyPEM, certPEM), w')"
  then obtain tmpl w3 privKey w4 certDER where
    "rsa_GenerateKey L rand_Reader 2048 w3 = Inr (privKey, w4)"
    "x509_CreateCertificate L rand_Reader tmpl tmpl (Public (RSAPrivate privKey))
       (RSAPrivate privKey) w4 = Inr (certDER, w')"
    "keyPEM = pem_EncodeToMemory L
       \<lparr>Type = ''RSA PRIVATE KEY'', Bytes = x509_MarshalPKCS1PrivateKey L privKey\<rparr>"
    "certPEM = pem_EncodeToMemory L \<lparr>Type = ''CERTIFICATE'', Bytes = certDER\<rparr>"
    unfolding CreateKeyPair_Inr by auto
  then show "\<exists>tmpl w3 privKey w4 certDER.
        rsa_GenerateKey L rand_Reader 2048 w3 = Inr (privKey, w4) \<and>
        x509_CreateCertificate L rand_Reader tmpl tmpl (Public (RSAPrivate privKey))
          (RSAPrivate privKey) w4 = Inr (certDER, w') \<and>
        keyPEM = pem_EncodeToMemory L
          \<lparr>Type = ''RSA PRIVATE KEY'', Bytes = x509_MarshalPKCS1PrivateKey L privKey\<rparr> \<and>
        certPEM = pem_EncodeToMemory L \<lparr>Type = ''CERTIFICATE'', Bytes = certDER\<rparr>"
    by blast
next
  assume "CreateECKeyPair L cname w = Inr ((keyPEM, certPEM), w')"
  then obtain tmpl w3 privKey w4 certDER where
    "ecdsa_GenerateKey L P256 rand_Reader w3 = Inr (privKey, w4)"
    "x509_CreateCertificate L rand_Reader tmpl tmpl (Public (ECDSAPrivate privKey))
       (ECDSAPrivate privKey) w4 = Inr (certDER, w')"
    "certPEM = pem_EncodeToMemory L \<lparr>Type = ''CERTIFICATE'', Bytes = certDER\<rparr>"
    unfolding CreateECKeyPair_Inr by auto
  then show "\<exists>tmpl w3 privKey w4 certDER.
        ecdsa_GenerateKey L P256 rand_Reader w3 = Inr (privKey, w4) \<and>
        x509_CreateCertificate L rand_Reader tmpl tmpl (Public (ECDSAPrivate privKey))
          (ECDSAPrivate privKey) w4 = Inr (certDER, w') \<and>
        certPEM = pem_EncodeToMemory L \<lparr>Type = ''CERTIFICATE'', Bytes = certDER\<rparr>"
    by blast
qed

theorem pem_labels_witness:
  "CreateKeyPair simL ''potato.com'' sim_w0 =
     Inr ((''###############|RSA PRIVATE KEY#######|pkcs1:d'',
           ''###########|CERTIFICATE###############|cert:potato.com''),
          \<lparr>sim_clock = [1700000010000000000, 1700000010000000000], sim_counter = 3\<rparr>) \<and>
   (\<exists>tmpl w3 privKey w4 certDER.
      rsa_GenerateKey simL rand_Reader 2048 w3 = Inr (privKey, w4) \<and>
      x509_CreateCertificate simL rand_Reader tmpl tmpl (Public (RSAPrivate privKey))
        (RSAPrivate privKey) w4 =
        Inr (certDER, \<lparr>sim_clock = [1700000010000000000, 1700000010000000000], sim_counter = 3\<rparr>) \<and>
      ''###############|RSA PRIVATE KEY#######|pkcs1:d'' = pem_EncodeToMemory simL
        \<lparr>Type = ''RSA PRIVATE KEY'', Bytes = x509_MarshalPKCS1PrivateKey simL privKey\<rparr> \<and>
      ''###########|CERTIFICATE###############|cert:potato.com'' =
        pem_EncodeToMemory simL \<lparr>Type = ''CERTIFICATE'', Bytes = certDER\<rparr>) \<and>
   CreateECKeyPair simL [] sim_w0 =
     Inr ((''#############|EC PARAMETERS##########|'' @
           [CHR 0x06, CHR 0x08, CHR 0x2A, CHR 0x86, CHR 0x48, CHR 0xCE, CHR 0x3D,
            CHR 0x04, CHR 0x03, CHR 0x02] @
           ''##############|EC PRIVATE KEY######|sec1:d'',
           ''###########|CERTIFICATE#####|cert:''),
          \<lparr>sim_clock = [1700000010000000000, 1700000010000000000], sim_counter = 3\<rparr>) \<and>
   (\<exists>tmpl w3 privKey w4 certDER.
      ecdsa_GenerateKey simL P256 rand_Reader w3 = Inr (privKey, w4) \<and>
      x509_CreateCertificate simL rand_Reader tmpl tmpl (Public (ECDSAPrivate privKey))
        (ECDSAPrivate privKey) w4 =
        Inr (certDER, \<lparr>sim_clock = [1700000010000000000, 1700000010000000000], sim_counter = 3\<rparr>) \<and>
      ''###########|CERTIFICATE#####|cert:'' =
        pem_EncodeToMemory simL \<lparr>Type = ''CERTIFICATE'', Bytes = certDER\<rparr>)"
  using sim_CreateKeyPair
    pem_labels [THEN conjunct1, rule_format, OF sim_CreateKeyPair]
    sim_CreateECKeyPair
    pem_labels [THEN conjunct2, rule_format, OF sim_CreateECKeyPair]
  by (intro conjI)

subsection \<open>The key text of the EC generator\<close>





subsection \<open>The serialization of the object identifier\<close>



subsection \<open>Loading the pair\<close>




subsection \<open>The SSL configuration\<close>

text \<open>
  Claim C10. For all ports, when \<^verbatim>\<open>SpecSSLConfig\<close> returns a configuration, SSL is
  enabled in it, its SSL port is the port given, and its \<open>TLSPEM\<close> has exactly two
  entries: the key text, one line feed and the certificate text of the pair generated
  for \<^verbatim>\<open>potato.com\<close>, then the same for the pair generated after it for
  \<^verbatim>\<open>potato2.com\<close>. It returns whenever the two generator calls succeed.
\<close>

theorem SpecSSLConfig_TLSPEM:
  "(SpecSSLConfig L dflt statusPort proxyPort sslPort natsPorts w = Inr (c, w') \<longrightarrow>
     EnableSSL c = True \<and> SSLPort c = sslPort \<and> length (TLSPEM c) = 2 \<and>
     (\<exists>key cert w1 secondKey secondCert.
        CreateKeyPair L ''potato.com'' w = Inr ((key, cert), w1) \<and>
        CreateKeyPair L ''potato2.com'' w1 = Inr ((secondKey, secondCert), w') \<and>
        TLSPEM c = [key @ [CHR 0x0A] @ cert, secondKey @ [CHR 0x0A] @ secondCert])) \<and>
   (CreateKeyPair L ''potato.com'' w = Inr ((k1, c1), v1) \<and>
    CreateKeyPair L ''potato2.com'' v1 = Inr ((k2, c2), v2) \<longrightarrow>
     (\<exists>c. SpecSSLConfig L dflt statusPort proxyPort sslPort natsPorts w = Inr (c, v2)))"
  unfolding SpecSSLConfig_Inr by auto

theorem SpecSSLConfig_TLSPEM_witness:
  "\<exists>c w'.
     SpecSSLConfig simL sim_DefaultConfig 8081 8082 8443 [4222, 4223] sim_w0 = Inr (c, w') \<and>
     EnableSSL c = True \<and> SSLPort c = 8443 \<and> length (TLSPEM c) = 2 \<and>
     (\<exists>key cert w1 secondKey secondCert.
        CreateKeyPair simL ''potato.com'' sim_w0 = Inr ((key, cert), w1) \<and>
        CreateKeyPair simL ''potato2.com'' w1 = Inr ((secondKey, secondCert), w') \<and>
        TLSPEM c = [key @ [CHR 0x0A] @ cert, secondKey @ [CHR 0x0A] @ secondCert])"
proof -
  from SpecSSLConfig_TLSPEM [THEN conjunct2, rule_format,
      OF conjI [OF sim_CreateKeyPair sim_CreateKeyPair_second]]
  obtain c where
    r: "SpecSSLConfig simL sim_DefaultConfig 8081 8082 8443 [4222, 4223] sim_w0 =
          Inr (c, \<lparr>sim_clock = [], sim_counter = 6\<rparr>)"
    by blast
  from SpecSSLConfig_TLSPEM [THEN conjunct1, rule_format, OF r] r
  show ?thesis by blast
qed

end
